theory Spec2Isabelle
  imports Main "HOL-Library.AList"
begin

section \<open>JavaScript strings\<close>

text \<open>
  Strings are character lists. The four string methods the router and the clients
  call are written out: \<^verbatim>\<open>s.split(c)\<close> for a one-character separator (the
  result always has one part more than there are separators, so the empty string
  splits into one empty part), \<^verbatim>\<open>s.startsWith(p)\<close>, \<^verbatim>\<open>s.substring(n)\<close> and
  \<^verbatim>\<open>s.includes(p)\<close>.
\<close>

fun split_str :: "char \<Rightarrow> string \<Rightarrow> string list" where
  "split_str c [] = [[]]"
| "split_str c (x # xs) =
     (if x = c then [] # split_str c xs
      else (case split_str c xs of
              [] \<Rightarrow> [[x]]
            | p # ps \<Rightarrow> (x # p) # ps))"

definition startsWith :: "string \<Rightarrow> string \<Rightarrow> bool" where
  "startsWith s p = (take (length p) s = p)"

definition substring :: "string \<Rightarrow> nat \<Rightarrow> string" where
  "substring s n = drop n s"

fun includes_str :: "string \<Rightarrow> string \<Rightarrow> bool" where
  "includes_str [] p = (p = [])"
| "includes_str (x # xs) p = (startsWith (x # xs) p \<or> includes_str xs p)"

section \<open>The router (router.js)\<close>

subsection \<open>The route table\<close>

text \<open>
  \<^verbatim>\<open>this.routes\<close> is a \<^verbatim>\<open>Map\<close> from pattern to handler. A \<^verbatim>\<open>Map\<close> iterates in
  the order in which its keys were first inserted, and \<^verbatim>\<open>set\<close> on a key that is
  present replaces the value where it stands: an association list under
  \<^const>\<open>AList.update\<close>. The handlers are the methods \<^verbatim>\<open>setupRoutes\<close> names.
\<close>

datatype handler =
    renderHome
  | renderOpportunities
  | renderOpportunityDetail
  | renderDirectory
  | renderCompanyDetail
  | renderRegulatory
  | renderRegulatoryDetail
  | renderInsights
  | renderInsightDetail
  | renderSearch

type_synonym 'h routes = "(string \<times> 'h) list"

definition addRoute :: "string \<Rightarrow> 'h \<Rightarrow> 'h routes \<Rightarrow> 'h routes" where
  "addRoute pat h rs = AList.update pat h rs"

definition registerAll :: "(string \<times> 'h) list \<Rightarrow> 'h routes" where
  "registerAll regs = fold (\<lambda>(pat, h) rs. addRoute pat h rs) regs []"

definition setupRoutes :: "handler routes" where
  "setupRoutes = registerAll
     [('''', renderHome),
      (''home'', renderHome),
      (''opportunities'', renderOpportunities),
      (''opportunities/:id'', renderOpportunityDetail),
      (''directory'', renderDirectory),
      (''directory/:id'', renderCompanyDetail),
      (''regulatory'', renderRegulatory),
      (''regulatory/:id'', renderRegulatoryDetail),
      (''insights'', renderInsights),
      (''insights/:id'', renderInsightDetail),
      (''search'', renderSearch)]"

subsection \<open>parseRoute\<close>

text \<open>
  A parameter object is a plain object whose keys are assigned one by one: an
  association list in insertion order, \<^verbatim>\<open>tempParams[name] = v\<close> being
  \<^const>\<open>AList.update\<close>. Property names are ordinary keys here (a pattern segment
  \<^verbatim>\<open>:__proto__\<close>, which JavaScript would not store, is not modelled).
\<close>

type_synonym params = "(string \<times> string) list"

definition isParam :: "string \<Rightarrow> bool" where
  "isParam seg = startsWith seg '':''"

text \<open>
  The inner loop of \<^verbatim>\<open>parseRoute\<close>, over the segments of one pattern and of the
  route, entered only when both have the same length: \<open>None\<close> is
  \<^verbatim>\<open>isMatch = false; break\<close>, \<open>Some\<close> carries \<^verbatim>\<open>tempParams\<close> at the end of
  the loop.
\<close>

fun matchSegments :: "string list \<Rightarrow> string list \<Rightarrow> params \<Rightarrow> params option" where
  "matchSegments [] parts tempParams = Some tempParams"
| "matchSegments (pp # pathParts) [] tempParams = None"
| "matchSegments (pp # pathParts) (p # parts) tempParams =
     (if isParam pp then matchSegments pathParts parts (AList.update (substring pp 1) p tempParams)
      else if pp \<noteq> p then None
      else matchSegments pathParts parts tempParams)"

text \<open>
  The outer loop over the route table: it stops at the first pattern of the right
  length whose inner loop ends with \<^verbatim>\<open>isMatch\<close> still true. \<open>None\<close> is the loop
  running to its end without a match.
\<close>

fun scanRoutes :: "string list \<Rightarrow> 'h routes \<Rightarrow> (string \<times> params) option" where
  "scanRoutes parts [] = None"
| "scanRoutes parts ((pat, h) # rest) =
     (let pathParts = split_str CHR ''/'' pat in
      if length pathParts = length parts then
        (case matchSegments pathParts parts [] of
           Some tempParams \<Rightarrow> Some (pat, tempParams)
         | None \<Rightarrow> scanRoutes parts rest)
      else scanRoutes parts rest)"

record parsed =
  path :: string
  params :: params
  route :: string

text \<open>
  \<^verbatim>\<open>matchedPath\<close> starts as the empty string and \<^verbatim>\<open>params\<close> as the empty object;
  a match overwrites both.
\<close>

definition parseRoute :: "'h routes \<Rightarrow> string \<Rightarrow> parsed" where
  "parseRoute rs r =
     (case scanRoutes (split_str CHR ''/'' r) rs of
        None \<Rightarrow> \<lparr>path = '''', params = [], route = r\<rparr>
      | Some (pat, ps) \<Rightarrow> \<lparr>path = pat, params = ps, route = r\<rparr>)"

subsection \<open>handleRoute\<close>

text \<open>
  What one navigation event leaves in the content region: the page a handler
  rendered, the not-found view of \<^verbatim>\<open>render404\<close>, or the error view of
  \<^verbatim>\<open>renderError\<close>. A handler is run by \<open>run\<close>, which either throws
  (\<open>Inl\<close>) or renders a page (\<open>Inr\<close>). The loading indicator, the navigation
  highlight and the page-view tracking do not change which view is shown.
\<close>

datatype ('e, 'v) outcome = Rendered 'v | NotFound | Errored 'e

definition handleRoute ::
  "'h routes \<Rightarrow> ('h \<Rightarrow> params \<Rightarrow> 'e + 'v) \<Rightarrow> string \<Rightarrow> ('e, 'v) outcome" where
  "handleRoute rs run r =
     (let p = parseRoute rs r in
      case map_of rs (path p) of
        Some h \<Rightarrow> (case run h (params p) of Inl e \<Rightarrow> Errored e | Inr v \<Rightarrow> Rendered v)
      | None \<Rightarrow> NotFound)"

subsection \<open>Pagination and filter links\<close>



subsection \<open>What the specification says of route resolution\<close>




section \<open>The CMS clients (api.js and the Sanity client)\<close>

subsection \<open>Values, errors and the remote store\<close>

text \<open>
  The values the clients pass around: documents, lists of documents and summary
  objects. An object is an association list in insertion order, and
  \<open>JUndefined\<close> is JavaScript's \<^verbatim>\<open>undefined\<close> (a property that is absent
  reads as it). Numbers are the integers the code uses.
\<close>

datatype json =
    JUndefined
  | JNull
  | JBool bool
  | JNum int
  | JStr string
  | JArr "json list"
  | JObj "(string \<times> json) list"

type_synonym document = "(string \<times> json) list"

text \<open>
  A thrown value or a rejected promise. \<open>SanityApiError\<close> is the error
  \<^verbatim>\<open>fetchWithCache\<close> throws itself on a response that is not \<^verbatim>\<open>ok\<close>, with the
  response's status and status text.
\<close>

datatype error = Error string | SanityApiError int string

text \<open>The queries of \<^verbatim>\<open>Appwrite.Query\<close> that the client builds.\<close>

datatype query =
    OrderDesc string
  | OrderAsc string
  | Limit int
  | Offset int
  | Equal string json
  | Search string string

text \<open>
  What \<^verbatim>\<open>databases.listDocuments\<close> resolves to (the SDK's document list). The
  remote store itself is a parameter of every operation: a function from the
  request to the promise's outcome, \<open>Inl\<close> for a rejection.
\<close>

record response =
  total :: int
  documents :: "document list"

type_synonym listDocuments = "string \<Rightarrow> string \<Rightarrow> query list \<Rightarrow> error + response"

type_synonym createDocument = "string \<Rightarrow> string \<Rightarrow> string \<Rightarrow> document \<Rightarrow> error + json"

text \<open>
  What \<^verbatim>\<open>fetch\<close> resolves to for the Sanity client: \<open>result\<close> is the outcome of
  \<^verbatim>\<open>(await response.json()).result\<close>.
\<close>

record http_response =
  ok :: bool
  status :: int
  statusText :: string
  result :: "error + json"

type_synonym fetch = "string \<Rightarrow> error + http_response"

subsection \<open>The client's state\<close>

text \<open>
  A cache entry and the cache, a \<^verbatim>\<open>Map\<close> from key to entry (an association list
  in insertion order, as the route table is). Next to the cache the state keeps
  the trace of the requests sent to the remote store, which the source does not
  hold: it is what "performs a remote call" means here.
\<close>

record entry =
  data :: json
  timestamp :: int

type_synonym cache = "(string \<times> entry) list"

datatype request =
    ListDocuments string string "query list"
  | CreateDocument string string string document
  | Fetch string

record client =
  cache :: cache
  sent :: "request list"

definition databaseId :: string where
  "databaseId = ''68bfa1020007a42a4845''"

definition collections :: "(string \<times> string) list" where
  "collections =
     [(''opportunities'', ''opportunities''),
      (''companies'', ''companies''),
      (''regulatory'', ''regulatory''),
      (''articles'', ''articles'')]"

definition cacheTimeout :: int where
  "cacheTimeout = 5 * 60 * 1000"

subsection \<open>Cache helpers\<close>

text \<open>
  \<^verbatim>\<open>JSON.stringify\<close> is a parameter. \<open>now\<close> is the value \<^verbatim>\<open>Date.now()\<close>
  returns, in milliseconds.
\<close>

definition getCacheKey :: "('q \<Rightarrow> string) \<Rightarrow> string \<Rightarrow> 'q \<Rightarrow> string" where
  "getCacheKey stringify collection q = collection @ ''_'' @ stringify q"

definition isValidCache :: "int \<Rightarrow> entry option \<Rightarrow> bool" where
  "isValidCache now cacheEntry =
     (case cacheEntry of
        None \<Rightarrow> False
      | Some e \<Rightarrow> now - timestamp e < cacheTimeout)"

definition setCache :: "int \<Rightarrow> string \<Rightarrow> json \<Rightarrow> cache \<Rightarrow> cache" where
  "setCache now key d c = AList.update key \<lparr>data = d, timestamp = now\<rparr> c"

definition clearCache :: "cache \<Rightarrow> cache" where
  "clearCache c = []"

definition clearCacheByCollection :: "string \<Rightarrow> cache \<Rightarrow> cache" where
  "clearCacheByCollection collection c =
     (let keysToDelete = map fst (filter (\<lambda>(key, e). includes_str key collection) c)
      in fold AList.delete keysToDelete c)"

subsection \<open>JavaScript truthiness\<close>

fun truthy :: "json \<Rightarrow> bool" where
  "truthy JUndefined = False"
| "truthy JNull = False"
| "truthy (JBool b) = b"
| "truthy (JNum n) = (n \<noteq> 0)"
| "truthy (JStr s) = (s \<noteq> [])"
| "truthy (JArr xs) = True"
| "truthy (JObj fs) = True"

definition getProp :: "document \<Rightarrow> string \<Rightarrow> json" where
  "getProp doc k = (case map_of doc k of None \<Rightarrow> JUndefined | Some v \<Rightarrow> v)"

definition js_or :: "json \<Rightarrow> json \<Rightarrow> json" where
  "js_or a b = (if truthy a then a else b)"

subsection \<open>The static example records of api.js\<close>

definition getMockOpportunities :: "document list" where
  "getMockOpportunities =
     [[(''$id'', JStr ''mock-opp-1''),
       (''title'', JStr ''Senior Reservoir Engineer - Lagos''),
       (''description'', JStr ''Lead reservoir modeling and simulation projects for offshore oil fields. Minimum 8 years experience required.''),
       (''opportunityType'', JStr ''Job''),
       (''closingDate'', JStr ''2024-09-15''),
       (''location'', JStr ''Lagos, Nigeria''),
       (''company'', JObj [(''companyName'', JStr ''Shell Nigeria''), (''sector'', JStr ''Upstream'')]),
       (''$createdAt'', JStr ''2024-08-22T10:00:00.000Z'')],
      [(''$id'', JStr ''mock-opp-2''),
       (''title'', JStr ''Equipment Supply Contract - $50M''),
       (''description'', JStr ''Supply and maintenance of drilling equipment for deep water operations.''),
       (''opportunityType'', JStr ''Tender''),
       (''closingDate'', JStr ''2024-09-30''),
       (''location'', JStr ''Port Harcourt, Nigeria''),
       (''company'', JObj [(''companyName'', JStr ''TotalEnergies''), (''sector'', JStr ''Upstream'')]),
       (''$createdAt'', JStr ''2024-08-21T10:00:00.000Z'')]]"

definition getMockCompanies :: "document list" where
  "getMockCompanies =
     [[(''$id'', JStr ''mock-comp-1''),
       (''companyName'', JStr ''Shell Petroleum Development Company''),
       (''sector'', JStr ''Upstream''),
       (''description'', JStr ''Leading international oil and gas company operating in Nigeria since 1936.''),
       (''ncdmbNumber'', JStr ''NCDMB-001-2024''),
       (''website'', JStr ''https://shell.com.ng'')],
      [(''$id'', JStr ''mock-comp-2''),
       (''companyName'', JStr ''TotalEnergies Nigeria''),
       (''sector'', JStr ''Upstream''),
       (''description'', JStr ''French multinational integrated energy company.''),
       (''ncdmbNumber'', JStr ''NCDMB-002-2024''),
       (''website'', JStr ''https://totalenergies.com.ng'')]]"

definition getMockRegulatory :: "document list" where
  "getMockRegulatory =
     [[(''$id'', JStr ''mock-reg-1''),
       (''title'', JStr ''New Environmental Impact Assessment Guidelines''),
       (''source'', JStr ''NUPRC''),
       (''summary'', JStr ''Updated EIA requirements for oil and gas operations.''),
       (''publishedDate'', JStr ''2024-08-22'')]]"

definition getMockArticles :: "document list" where
  "getMockArticles =
     [[(''$id'', JStr ''mock-art-1''),
       (''title'', JStr (''Nigeria'' @ [CHR 0x27] @ ''s Oil Production Reaches New Heights'')),
       (''summary'', JStr ''NNPC reports significant increase in daily production capacity.''),
       (''author'', JStr ''Energy Analytics Team''),
       (''publishedDate'', JStr ''2024-08-22''),
       (''tags'', JArr [JStr ''Production'', JStr ''NNPC'', JStr ''Oil''])]]"

definition docsJson :: "document list \<Rightarrow> json" where
  "docsJson docs = JArr (map JObj docs)"

fun arrayLength :: "json \<Rightarrow> nat" where
  "arrayLength (JArr xs) = length xs"
| "arrayLength v = 0"

definition getMockFeaturedContent :: json where
  "getMockFeaturedContent =
     JObj [(''featuredOpportunities'', docsJson (take 2 getMockOpportunities)),
           (''featuredCompanies'', docsJson getMockCompanies),
           (''latestUpdates'', docsJson getMockRegulatory),
           (''recentArticles'', docsJson getMockArticles)]"

subsection \<open>Listing opportunities (api.js)\<close>

text \<open>
  The filter object of a list call; an absent field is \<open>None\<close>. \<^verbatim>\<open>limit\<close> and
  \<^verbatim>\<open>offset\<close> default to 20 and 0, and \<^verbatim>\<open>type\<close> adds its query only when it is
  truthy (a string that is not empty).
\<close>

record filters =
  f_type :: "string option"
  f_sector :: "string option"
  f_limit :: "int option"
  f_offset :: "int option"

definition opportunityQueries :: "filters \<Rightarrow> query list" where
  "opportunityQueries fs =
     (let lim = (case f_limit fs of None \<Rightarrow> 20 | Some n \<Rightarrow> n);
          off = (case f_offset fs of None \<Rightarrow> 0 | Some n \<Rightarrow> n)
      in [OrderDesc ''$createdAt'', Limit lim, Offset off] @
         (case f_type fs of
            None \<Rightarrow> []
          | Some t \<Rightarrow> if t \<noteq> [] then [Equal ''opportunityType'' (JStr t)] else []))"

text \<open>
  \<open>now\<close> is the clock when the call starts (read by \<^verbatim>\<open>isValidCache\<close>),
  \<open>later\<close> the clock when the remote store has answered (read by
  \<^verbatim>\<open>setCache\<close>). The result is the value the promise resolves to: the method
  has no path that rejects.
\<close>

definition getOpportunities ::
  "(filters \<Rightarrow> string) \<Rightarrow> listDocuments \<Rightarrow> int \<Rightarrow> int \<Rightarrow> filters \<Rightarrow> client \<Rightarrow> json \<times> client" where
  "getOpportunities stringify listDocuments now later fs st =
     (let cacheKey = getCacheKey stringify ''opportunities'' fs;
          cached = map_of (cache st) cacheKey
      in case (if isValidCache now cached then cached else None) of
           Some e \<Rightarrow> (data e, st)
         | None \<Rightarrow>
             (let queries = opportunityQueries fs;
                  st1 = st\<lparr>sent := sent st @ [ListDocuments databaseId ''opportunities'' queries]\<rparr>
              in case listDocuments databaseId ''opportunities'' queries of
                   Inr response \<Rightarrow>
                     (docsJson (documents response),
                      st1\<lparr>cache := setCache later cacheKey (docsJson (documents response)) (cache st1)\<rparr>)
                 | Inl err \<Rightarrow> (docsJson getMockOpportunities, st1)))"

subsection \<open>Creating an opportunity (api.js)\<close>

text \<open>
  \<open>docId\<close> is the value of \<^verbatim>\<open>Appwrite.ID.unique()\<close> and \<open>isoNow\<close> that of
  \<^verbatim>\<open>new Date().toISOString()\<close>. The object literal spreads the data and then
  sets \<^verbatim>\<open>publishedAt\<close> and \<^verbatim>\<open>featured\<close>. The result is \<open>Inl\<close> when the
  method rethrows.
\<close>

definition opportunityPayload :: "string \<Rightarrow> document \<Rightarrow> document" where
  "opportunityPayload isoNow d =
     AList.update ''featured'' (js_or (getProp d ''featured'') (JBool False))
       (AList.update ''publishedAt'' (JStr isoNow) d)"

definition createOpportunity ::
  "createDocument \<Rightarrow> string \<Rightarrow> string \<Rightarrow> document \<Rightarrow> client \<Rightarrow> (error + json) \<times> client" where
  "createOpportunity createDocument docId isoNow d st =
     (let payload = opportunityPayload isoNow d;
          st1 = st\<lparr>sent := sent st @ [CreateDocument databaseId ''opportunities'' docId payload]\<rparr>
      in case createDocument databaseId ''opportunities'' docId payload of
           Inr opportunity \<Rightarrow>
             (Inr opportunity, st1\<lparr>cache := clearCacheByCollection ''opportunities'' (cache st1)\<rparr>)
         | Inl err \<Rightarrow> (Inl err, st1))"

subsection \<open>Search (api.js)\<close>

text \<open>
  \<^verbatim>\<open>trim\<close> removes white space from both ends; over the 8-bit code units of
  \<^typ>\<open>char\<close> these are tab, line feed, vertical tab, form feed, carriage
  return, space and no-break space.
\<close>

definition isWhiteSpace :: "char \<Rightarrow> bool" where
  "isWhiteSpace c = (of_char c \<in> set [9, 10, 11, 12, 13, 32, 160 :: nat])"

definition trim :: "string \<Rightarrow> string" where
  "trim s = rev (dropWhile isWhiteSpace (rev (dropWhile isWhiteSpace s)))"

text \<open>
  The callback of \<^verbatim>\<open>response.documents.map\<close>: the document with \<^verbatim>\<open>_type\<close> and
  \<^verbatim>\<open>subtitle\<close> set. \<open>None\<close> is the \<^verbatim>\<open>TypeError\<close> of calling \<^verbatim>\<open>substring\<close>
  on a description that is neither absent nor a string.
\<close>

definition subtitleOf :: "document \<Rightarrow> json option" where
  "subtitleOf doc =
     (if truthy (getProp doc ''companyName'') then Some (getProp doc ''companyName'')
      else if truthy (getProp doc ''source'') then Some (getProp doc ''source'')
      else if truthy (getProp doc ''author'') then Some (getProp doc ''author'')
      else (case getProp doc ''description'' of
              JUndefined \<Rightarrow> Some JUndefined
            | JNull \<Rightarrow> Some JUndefined
            | JStr s \<Rightarrow> Some (JStr (take 100 s))
            | _ \<Rightarrow> None))"

fun tagResults :: "string \<Rightarrow> document list \<Rightarrow> document list option" where
  "tagResults collectionKey [] = Some []"
| "tagResults collectionKey (doc # docs) =
     (case subtitleOf doc of
        None \<Rightarrow> None
      | Some subtitle \<Rightarrow>
          (case tagResults collectionKey docs of
             None \<Rightarrow> None
           | Some rest \<Rightarrow>
               Some (AList.update ''subtitle'' subtitle
                      (AList.update ''_type'' (JStr (butlast collectionKey)) doc) # rest)))"

text \<open>
  The loop over the collections to search, with \<^verbatim>\<open>results\<close> and the requests
  sent so far. A rejected query and a throwing callback are caught inside the
  loop and leave \<^verbatim>\<open>results\<close> as it is.
\<close>

fun searchLoop ::
  "listDocuments \<Rightarrow> string \<Rightarrow> string list \<Rightarrow> document list \<times> request list \<Rightarrow>
   document list \<times> request list" where
  "searchLoop listDocuments searchTerm [] (results, reqs) = (results, reqs)"
| "searchLoop listDocuments searchTerm (collectionKey # rest) (results, reqs) =
     (case map_of collections collectionKey of
        None \<Rightarrow> searchLoop listDocuments searchTerm rest (results, reqs)
      | Some coll \<Rightarrow>
          (let queries = [Search ''title'' searchTerm, Limit 5];
               reqs1 = reqs @ [ListDocuments databaseId coll queries]
           in case listDocuments databaseId coll queries of
                Inl err \<Rightarrow> searchLoop listDocuments searchTerm rest (results, reqs1)
              | Inr response \<Rightarrow>
                  (case tagResults collectionKey (documents response) of
                     None \<Rightarrow> searchLoop listDocuments searchTerm rest (results, reqs1)
                   | Some searchResults \<Rightarrow>
                       searchLoop listDocuments searchTerm rest (results @ searchResults, reqs1))))"

text \<open>
  Only the names of \<^const>\<open>collections\<close> itself count as collections here
  (names that a JavaScript object inherits are not modelled).
\<close>

definition search :: "listDocuments \<Rightarrow> string \<Rightarrow> string list \<Rightarrow> client \<Rightarrow> json \<times> client" where
  "search listDocuments searchTerm types st =
     (if trim searchTerm = [] then (JArr [], st)
      else
        (let collectionsToSearch =
               (if length types > 0 then filter (\<lambda>t. map_of collections t \<noteq> None) types
                else map fst collections);
             (results, reqs) = searchLoop listDocuments searchTerm collectionsToSearch ([], [])
         in (docsJson (take 10 results), st\<lparr>sent := sent st @ reqs\<rparr>)))"

subsection \<open>Dashboard statistics and featured content (api.js)\<close>

text \<open>
  \<^verbatim>\<open>Promise.all\<close> over four promises: the four results when all resolve, a
  rejection when one rejects. All four requests have been sent by then.
\<close>

definition promiseAll4 ::
  "'e + 'a \<Rightarrow> 'e + 'b \<Rightarrow> 'e + 'c \<Rightarrow> 'e + 'd \<Rightarrow> 'e + ('a \<times> 'b \<times> 'c \<times> 'd)" where
  "promiseAll4 p1 p2 p3 p4 =
     (case p1 of Inl e \<Rightarrow> Inl e | Inr a \<Rightarrow>
      (case p2 of Inl e \<Rightarrow> Inl e | Inr b \<Rightarrow>
       (case p3 of Inl e \<Rightarrow> Inl e | Inr c \<Rightarrow>
        (case p4 of Inl e \<Rightarrow> Inl e | Inr d \<Rightarrow> Inr (a, b, c, d)))))"

definition fallbackDashboardStats :: json where
  "fallbackDashboardStats =
     JObj [(''totalOpportunities'', JNum 156),
           (''totalCompanies'', JNum 89),
           (''totalUpdates'', JNum 24),
           (''totalArticles'', JNum 12)]"

definition getDashboardStats :: "listDocuments \<Rightarrow> client \<Rightarrow> json \<times> client" where
  "getDashboardStats listDocuments st =
     (let st1 = st\<lparr>sent := sent st @
                   [ListDocuments databaseId ''opportunities'' [Limit 1],
                    ListDocuments databaseId ''companies'' [Limit 1],
                    ListDocuments databaseId ''regulatory'' [Limit 1],
                    ListDocuments databaseId ''articles'' [Limit 1]]\<rparr>
      in case promiseAll4
                (listDocuments databaseId ''opportunities'' [Limit 1])
                (listDocuments databaseId ''companies'' [Limit 1])
                (listDocuments databaseId ''regulatory'' [Limit 1])
                (listDocuments databaseId ''articles'' [Limit 1]) of
           Inr (opportunities, companies, regulatory, articles) \<Rightarrow>
             (JObj [(''totalOpportunities'', JNum (total opportunities)),
                    (''totalCompanies'', JNum (total companies)),
                    (''totalUpdates'', JNum (total regulatory)),
                    (''totalArticles'', JNum (total articles))], st1)
         | Inl err \<Rightarrow> (fallbackDashboardStats, st1))"

definition getFeaturedContent :: "listDocuments \<Rightarrow> client \<Rightarrow> json \<times> client" where
  "getFeaturedContent listDocuments st =
     (let q1 = [Equal ''featured'' (JBool True), Limit 3];
          q2 = [Equal ''featured'' (JBool True), Limit 6];
          q3 = [OrderDesc ''publishedDate'', Limit 3];
          q4 = [OrderDesc ''publishedDate'', Limit 3];
          st1 = st\<lparr>sent := sent st @
                   [ListDocuments databaseId ''opportunities'' q1,
                    ListDocuments databaseId ''companies'' q2,
                    ListDocuments databaseId ''regulatory'' q3,
                    ListDocuments databaseId ''articles'' q4]\<rparr>
      in case promiseAll4
                (listDocuments databaseId ''opportunities'' q1)
                (listDocuments databaseId ''companies'' q2)
                (listDocuments databaseId ''regulatory'' q3)
                (listDocuments databaseId ''articles'' q4) of
           Inr (featuredOpportunities, featuredCompanies, latestUpdates, recentArticles) \<Rightarrow>
             (JObj [(''featuredOpportunities'', docsJson (documents featuredOpportunities)),
                    (''featuredCompanies'', docsJson (documents featuredCompanies)),
                    (''latestUpdates'', docsJson (documents latestUpdates)),
                    (''recentArticles'', docsJson (documents recentArticles))], st1)
         | Inl err \<Rightarrow> (getMockFeaturedContent, st1))"

subsection \<open>The Sanity client\<close>

definition baseUrl :: string where
  "baseUrl = ''https://xus3urqo.api.sanity.io/v2024-08-22/data/query/production''"

text \<open>The fallback records, chosen by what the query text contains.\<close>

definition getFallbackData :: "string \<Rightarrow> json" where
  "getFallbackData q =
     (if includes_str q ''opportunity'' then
        JArr [JObj [(''_id'', JStr ''mock-1''),
                    (''title'', JStr ''Senior Reservoir Engineer - Lagos''),
                    (''description'', JStr ''Lead reservoir modeling and simulation projects for offshore oil fields. Minimum 8 years experience required.''),
                    (''opportunityType'', JStr ''Job''),
                    (''closingDate'', JStr ''2024-09-15''),
                    (''company'', JObj [(''companyName'', JStr ''Shell Nigeria''), (''sector'', JStr ''Upstream'')])],
              JObj [(''_id'', JStr ''mock-2''),
                    (''title'', JStr ''Equipment Supply Contract - $50M''),
                    (''description'', JStr ''Supply and maintenance of drilling equipment for deep water operations.''),
                    (''opportunityType'', JStr ''Tender''),
                    (''closingDate'', JStr ''2024-09-30''),
                    (''company'', JObj [(''companyName'', JStr ''TotalEnergies''), (''sector'', JStr ''Upstream'')])]]
      else if includes_str q ''companyProfile'' then
        JArr [JObj [(''_id'', JStr ''company-1''),
                    (''companyName'', JStr ''Shell Petroleum Development Company''),
                    (''sector'', JStr ''Upstream''),
                    (''description'', JStr ''Leading international oil and gas company operating in Nigeria since 1936.''),
                    (''ncdmbNumber'', JStr ''NCDMB-001-2024'')],
              JObj [(''_id'', JStr ''company-2''),
                    (''companyName'', JStr ''TotalEnergies Nigeria''),
                    (''sector'', JStr ''Upstream''),
                    (''description'', JStr ''French multinational integrated energy company.''),
                    (''ncdmbNumber'', JStr ''NCDMB-002-2024'')]]
      else if includes_str q ''regulatoryUpdate'' then
        JArr [JObj [(''_id'', JStr ''reg-1''),
                    (''title'', JStr ''New Environmental Impact Assessment Guidelines''),
                    (''source'', JStr ''NUPRC''),
                    (''summary'', JStr ''Updated EIA requirements for oil and gas operations.''),
                    (''publishedDate'', JStr ''2024-08-22'')],
              JObj [(''_id'', JStr ''reg-2''),
                    (''title'', JStr ''Local Content Implementation Roadmap''),
                    (''source'', JStr ''NCDMB''),
                    (''summary'', JStr ''Strategic framework for achieving 70% local content.''),
                    (''publishedDate'', JStr ''2024-08-20'')]]
      else JArr [])"

text \<open>
  \<^verbatim>\<open>fetchWithCache\<close>. \<open>paramsText\<close> is \<^verbatim>\<open>JSON.stringify(params)\<close>, and
  \<^verbatim>\<open>encodeURIComponent\<close> and \<^verbatim>\<open>fetch\<close> are parameters. \<open>awaitResult\<close> is the
  body of the \<^verbatim>\<open>try\<close> block up to \<^verbatim>\<open>result.result\<close>: the data, or what was
  thrown.
\<close>

definition awaitResult :: "fetch \<Rightarrow> string \<Rightarrow> error + json" where
  "awaitResult fetch url =
     (case fetch url of
        Inl err \<Rightarrow> Inl err
      | Inr response \<Rightarrow>
          if \<not> ok response then Inl (SanityApiError (status response) (statusText response))
          else result response)"

definition fetchWithCache ::
  "(string \<Rightarrow> string) \<Rightarrow> fetch \<Rightarrow> int \<Rightarrow> int \<Rightarrow> string \<Rightarrow> string \<Rightarrow> client \<Rightarrow> json \<times> client" where
  "fetchWithCache encodeURIComponent fetch now later q paramsText st =
     (let cacheKey = q @ ''_'' @ paramsText;
          cached = map_of (cache st) cacheKey
      in case (case cached of
                 None \<Rightarrow> None
               | Some e \<Rightarrow> if now - timestamp e < cacheTimeout then Some e else None) of
           Some e \<Rightarrow> (data e, st)
         | None \<Rightarrow>
             (let url = baseUrl @ ''?query='' @ encodeURIComponent q;
                  st1 = st\<lparr>sent := sent st @ [Fetch url]\<rparr>
              in case awaitResult fetch url of
                   Inr d \<Rightarrow>
                     (d, st1\<lparr>cache := AList.update cacheKey \<lparr>data = d, timestamp = later\<rparr> (cache st1)\<rparr>)
                 | Inl err \<Rightarrow>
                     (case cached of
                        Some e \<Rightarrow> (data e, st1)
                      | None \<Rightarrow> (getFallbackData q, st1))))"

text \<open>
  A list call of the Sanity client builds its query text and hands it to
  \<^verbatim>\<open>fetchWithCache\<close> with the default parameters \<^verbatim>\<open>{}\<close>. \<open>str\<close> is the
  conversion of a number to its text inside a template literal.
\<close>

definition sanity_opportunityQuery :: "(int \<Rightarrow> string) \<Rightarrow> filters \<Rightarrow> string" where
  \<open>sanity_opportunityQuery str fs =
     (let lim = (case f_limit fs of None \<Rightarrow> 20 | Some n \<Rightarrow> n);
          off = (case f_offset fs of None \<Rightarrow> 0 | Some n \<Rightarrow> n)
      in ''*[_type == "opportunity"'' @
         (case f_type fs of
            None \<Rightarrow> []
          | Some t \<Rightarrow> if t \<noteq> [] then '' && opportunityType == "'' @ t @ ''"'' else []) @
         ''] | order(publishedAt desc) ['' @ str off @ ''...'' @ str (off + lim) @ '']'' @
         '' {\<newline>            _id,\<newline>            title,\<newline>            description,\<newline>            opportunityType,\<newline>            closingDate,\<newline>            link,\<newline>            publishedAt,\<newline>            company->{\<newline>                _id,\<newline>                companyName,\<newline>                logo,\<newline>                sector\<newline>            }\<newline>        }'')\<close>

definition sanity_getOpportunities ::
  "(int \<Rightarrow> string) \<Rightarrow> (string \<Rightarrow> string) \<Rightarrow> fetch \<Rightarrow> int \<Rightarrow> int \<Rightarrow> filters \<Rightarrow> client \<Rightarrow> json \<times> client" where
  "sanity_getOpportunities str encodeURIComponent fetch now later fs st =
     fetchWithCache encodeURIComponent fetch now later (sanity_opportunityQuery str fs) ''{}'' st"





section \<open>Example environments\<close>

text \<open>
  Concrete inputs at which the theorems below are evaluated: a serialiser for
  filter objects, remote stores that answer and that are unreachable, small client
  states, the decimal text of a number, and a route table with two patterns of
  the same length.
\<close>

definition exampleStringify :: "filters \<Rightarrow> string" where
  \<open>exampleStringify fs =
     ''{'' @ (case f_type fs of None \<Rightarrow> [] | Some t \<Rightarrow> ''"type":"'' @ t @ ''"'') @ ''}''\<close>

definition noFilters :: filters where
  "noFilters = \<lparr>f_type = None, f_sector = None, f_limit = None, f_offset = None\<rparr>"

definition exampleDocument :: document where
  "exampleDocument = [(''$id'', JStr ''doc-1''), (''title'', JStr ''Drilling Engineer'')]"

definition onlineStore :: listDocuments where
  "onlineStore db coll qs = Inr \<lparr>total = 1, documents = [exampleDocument]\<rparr>"

definition offlineStore :: listDocuments where
  "offlineStore db coll qs = Inl (Error ''Network request failed'')"

definition articlesDownStore :: listDocuments where
  "articlesDownStore db coll qs =
     (if coll = ''articles'' then Inl (Error ''Network request failed'')
      else Inr \<lparr>total = 1, documents = [exampleDocument]\<rparr>)"

definition acceptingStore :: createDocument where
  "acceptingStore db coll docId d = Inr (JObj ((''$id'', JStr docId) # d))"


definition emptyClient :: client where
  "emptyClient = \<lparr>cache = [], sent = []\<rparr>"

definition cachedPage :: json where
  "cachedPage = JArr [JObj [(''$id'', JStr ''doc-0'')]]"

definition cachedClient :: client where
  "cachedClient =
     \<lparr>cache = [(''opportunities_{}'', \<lparr>data = cachedPage, timestamp = 1000\<rparr>),
               (''companies_{}'', \<lparr>data = JArr [], timestamp = 1000\<rparr>)],
      sent = []\<rparr>"

definition exampleEncode :: "string \<Rightarrow> string" where
  "exampleEncode s = s"

definition fetchDown :: fetch where
  "fetchDown url = Inl (Error ''Failed to fetch'')"

definition sanityCachedClient :: client where
  "sanityCachedClient =
     \<lparr>cache = [(''*[_type == x]_{}'', \<lparr>data = cachedPage, timestamp = 1000\<rparr>)], sent = []\<rparr>"





definition busyStore :: listDocuments where
  "busyStore db coll qs = Inr \<lparr>total = 5, documents = replicate 5 exampleDocument\<rparr>"

section \<open>Properties of the router\<close>












lemma setupRoutes_unfold:
  "setupRoutes =
     [('''', renderHome),
      (''home'', renderHome),
      (''opportunities'', renderOpportunities),
      (''opportunities/:id'', renderOpportunityDetail),
      (''directory'', renderDirectory),
      (''directory/:id'', renderCompanyDetail),
      (''regulatory'', renderRegulatory),
      (''regulatory/:id'', renderRegulatoryDetail),
      (''insights'', renderInsights),
      (''insights/:id'', renderInsightDetail),
      (''search'', renderSearch)]"
  by (simp add: setupRoutes_def registerAll_def addRoute_def)

lemma nonexistent_unmatched: "scanRoutes (split_str CHR ''/'' ''nonexistent'') setupRoutes = None"
  by (simp add: setupRoutes_unfold isParam_def startsWith_def)

lemma nonexistent_dispatch: "handleRoute setupRoutes run ''nonexistent'' =
    (case run renderHome [] of Inl e \<Rightarrow> Errored e | Inr v \<Rightarrow> Rendered v)"
proof -
  have "map_of setupRoutes [] = Some renderHome"
    by (simp add: setupRoutes_unfold)
  then show ?thesis
    unfolding handleRoute_def parseRoute_def nonexistent_unmatched by simp
qed










text \<open>
  Claim C1. No pattern of the table of \<^verbatim>\<open>setupRoutes\<close> matches the route
  \<^verbatim>\<open>nonexistent\<close>, and \<^verbatim>\<open>handleRoute\<close> does not show the not-found view for
  it: \<^verbatim>\<open>parseRoute\<close> leaves \<^verbatim>\<open>matchedPath\<close> at the empty string, the empty
  string is itself a registered pattern, and so the handler found under it,
  \<^verbatim>\<open>renderHome\<close>, is run.
\<close>

theorem unmatched_route_renders_home:
  "scanRoutes (split_str CHR ''/'' ''nonexistent'') setupRoutes = None \<and>
   handleRoute setupRoutes run ''nonexistent'' =
     (case run renderHome [] of Inl e \<Rightarrow> Errored e | Inr v \<Rightarrow> Rendered v) \<and>
   handleRoute setupRoutes run ''nonexistent'' \<noteq> NotFound"
  using nonexistent_unmatched nonexistent_dispatch [of run] by (simp split: sum.splits)

text \<open>
  In a table that does not register the empty pattern, a route no pattern matches
  is answered with the not-found view; in a table that does, with the handler of
  the empty pattern.
\<close>

lemma unmatched_route_not_found:
  assumes "scanRoutes (split_str CHR ''/'' r) rs = None" and "map_of rs [] = None"
  shows "handleRoute rs run r = NotFound"
  using assms by (simp add: handleRoute_def parseRoute_def)

lemma unmatched_route_empty_pattern:
  assumes "scanRoutes (split_str CHR ''/'' r) rs = None" and "map_of rs [] = Some h"
  shows "handleRoute rs run r = (case run h [] of Inl e \<Rightarrow> Errored e | Inr v \<Rightarrow> Rendered v)"
  using assms by (simp add: handleRoute_def parseRoute_def)






section \<open>Properties of the CMS clients\<close>

lemma startsWith_iff: "startsWith s p \<longleftrightarrow> (\<exists>b. s = p @ b)"
proof
  assume "startsWith s p"
  then have "s = p @ drop (length p) s"
    by (metis append_take_drop_id startsWith_def)
  then show "\<exists>b. s = p @ b" ..
next
  assume "\<exists>b. s = p @ b"
  then show "startsWith s p" by (auto simp: startsWith_def)
qed

lemma includes_str_iff: "includes_str s p \<longleftrightarrow> (\<exists>a b. s = a @ p @ b)"
proof (induction s)
  case Nil
  then show ?case by auto
next
  case (Cons x xs)
  show ?case
  proof
    assume "includes_str (x # xs) p"
    then consider "startsWith (x # xs) p" | "includes_str xs p" by auto
    then show "\<exists>a b. x # xs = a @ p @ b"
    proof cases
      case 1
      then obtain b where "x # xs = p @ b" by (auto simp: startsWith_iff)
      then have "x # xs = [] @ p @ b" by simp
      then show ?thesis by blast
    next
      case 2
      then obtain a b where "xs = a @ p @ b" using Cons.IH by auto
      then have "x # xs = (x # a) @ p @ b" by simp
      then show ?thesis by blast
    qed
  next
    assume "\<exists>a b. x # xs = a @ p @ b"
    then obtain a b where ab: "x # xs = a @ p @ b" by blast
    show "includes_str (x # xs) p"
    proof (cases a)
      case Nil
      with ab have "startsWith (x # xs) p" by (auto simp: startsWith_iff)
      then show ?thesis by simp
    next
      case (Cons y ys)
      with ab have "xs = ys @ p @ b" by simp
      then have "includes_str xs p" using Cons.IH by blast
      then show ?thesis by simp
    qed
  qed
qed

lemma includes_str_prefix: "includes_str (p @ s) p"
  by (metis append_Nil includes_str_iff)

lemma fold_delete_filter:
  "fold AList.delete ks c = filter (\<lambda>(k, e). k \<notin> set ks) c"
proof (induction ks arbitrary: c)
  case Nil
  then show ?case by simp
next
  case (Cons k ks)
  have "fold AList.delete (k # ks) c = filter (\<lambda>(k', e). k' \<notin> set ks) (AList.delete k c)"
    by (simp add: Cons.IH)
  also have "\<dots> = filter (\<lambda>(k', e). k' \<notin> set (k # ks)) c"
    by (induction c) (auto simp: AList.delete_eq)
  finally show ?case .
qed

lemma clearCacheByCollection_filter:
  "clearCacheByCollection collection c = filter (\<lambda>(k, e). \<not> includes_str k collection) c"
proof -
  have "filter (\<lambda>(k, e). k \<notin> fst ` {x \<in> set c. case x of (key, e) \<Rightarrow> includes_str key collection}) c
        = filter (\<lambda>(k, e). \<not> includes_str k collection) c"
    by (rule filter_cong) (auto simp: image_iff)
  then show ?thesis
    by (simp add: clearCacheByCollection_def fold_delete_filter)
qed

lemma map_of_filter_key:
  "map_of (filter (\<lambda>(k, e). P k) c) k = (if P k then map_of c k else None)"
  by (induction c) auto


lemma getOpportunities_hit:
  assumes "map_of (cache st) (getCacheKey stringify ''opportunities'' fs) = Some e"
    and "now - timestamp e < cacheTimeout"
  shows "getOpportunities stringify ld now later fs st = (data e, st)"
  using assms by (simp add: getOpportunities_def isValidCache_def Let_def)

lemma getOpportunities_miss:
  assumes "\<not> isValidCache now (map_of (cache st) (getCacheKey stringify ''opportunities'' fs))"
  shows "getOpportunities stringify ld now later fs st =
     (case ld databaseId ''opportunities'' (opportunityQueries fs) of
        Inr response \<Rightarrow>
          (docsJson (documents response),
           \<lparr>cache = setCache later (getCacheKey stringify ''opportunities'' fs)
                      (docsJson (documents response)) (cache st),
            sent = sent st @ [ListDocuments databaseId ''opportunities'' (opportunityQueries fs)]\<rparr>)
      | Inl err \<Rightarrow>
          (docsJson getMockOpportunities,
           \<lparr>cache = cache st,
            sent = sent st @ [ListDocuments databaseId ''opportunities'' (opportunityQueries fs)]\<rparr>))"
  using assms by (simp add: getOpportunities_def Let_def split: sum.splits)

lemma map_of_setCache_same:
  "map_of (setCache t key d c) key = Some \<lparr>data = d, timestamp = t\<rparr>"
  by (simp add: setCache_def AList.update_conv')

lemma cachedClient_lookup:
  "map_of (cache cachedClient) (getCacheKey exampleStringify ''opportunities'' noFilters) =
     Some \<lparr>data = cachedPage, timestamp = 1000\<rparr>"
  by (simp add: cachedClient_def getCacheKey_def exampleStringify_def noFilters_def)

text \<open>
  Claim C3. Two consecutive calls of \<^verbatim>\<open>getOpportunities\<close> with the same filters:
  when the first call is not served from the cache and its fetch succeeds, and
  the second call starts within the TTL of the timestamp that fetch stored, both
  return the fetched documents, the second call leaves the state as it is, and
  the two calls together send one request, whatever the remote store would answer
  the second time. When the first call is already served from a fresh entry and
  the second starts within that entry's TTL, both return the entry's data and
  send nothing.
\<close>

theorem getOpportunities_cache_idempotent:
  "(\<not> isValidCache now1 (map_of (cache st) (getCacheKey stringify ''opportunities'' fs)) \<and>
    ld1 databaseId ''opportunities'' (opportunityQueries fs) = Inr response \<and>
    now2 - later1 < cacheTimeout \<longrightarrow>
      (let (r1, st1) = getOpportunities stringify ld1 now1 later1 fs st;
           (r2, st2) = getOpportunities stringify ld2 now2 later2 fs st1
       in r1 = docsJson (documents response) \<and> r2 = r1 \<and> st2 = st1 \<and>
          sent st2 = sent st @ [ListDocuments databaseId ''opportunities'' (opportunityQueries fs)])) \<and>
   (map_of (cache st) (getCacheKey stringify ''opportunities'' fs) = Some e \<and>
    now1 - timestamp e < cacheTimeout \<and> now2 - timestamp e < cacheTimeout \<longrightarrow>
      (let (r1, st1) = getOpportunities stringify ld1 now1 later1 fs st;
           (r2, st2) = getOpportunities stringify ld2 now2 later2 fs st1
       in r1 = data e \<and> r2 = r1 \<and> st2 = st))"
proof (intro conjI impI)
  assume a: "\<not> isValidCache now1 (map_of (cache st) (getCacheKey stringify ''opportunities'' fs)) \<and>
    ld1 databaseId ''opportunities'' (opportunityQueries fs) = Inr response \<and>
    now2 - later1 < cacheTimeout"
  let ?key = "getCacheKey stringify ''opportunities'' fs"
  let ?st1 = "\<lparr>cache = setCache later1 ?key (docsJson (documents response)) (cache st),
               sent = sent st @ [ListDocuments databaseId ''opportunities'' (opportunityQueries fs)]\<rparr>"
  have first: "getOpportunities stringify ld1 now1 later1 fs st = (docsJson (documents response), ?st1)"
    using a by (simp add: getOpportunities_miss)
  have "map_of (cache ?st1) ?key = Some \<lparr>data = docsJson (documents response), timestamp = later1\<rparr>"
    by (simp add: map_of_setCache_same)
  then have second: "getOpportunities stringify ld2 now2 later2 fs ?st1 = (docsJson (documents response), ?st1)"
    using a by (simp add: getOpportunities_hit)
  show "let (r1, st1) = getOpportunities stringify ld1 now1 later1 fs st;
           (r2, st2) = getOpportunities stringify ld2 now2 later2 fs st1
       in r1 = docsJson (documents response) \<and> r2 = r1 \<and> st2 = st1 \<and>
          sent st2 = sent st @ [ListDocuments databaseId ''opportunities'' (opportunityQueries fs)]"
    by (simp add: first second)
next
  assume b: "map_of (cache st) (getCacheKey stringify ''opportunities'' fs) = Some e \<and>
    now1 - timestamp e < cacheTimeout \<and> now2 - timestamp e < cacheTimeout"
  then have "getOpportunities stringify ld1 now1 later1 fs st = (data e, st)"
    and "getOpportunities stringify ld2 now2 later2 fs st = (data e, st)"
    by (simp_all add: getOpportunities_hit)
  then show "let (r1, st1) = getOpportunities stringify ld1 now1 later1 fs st;
           (r2, st2) = getOpportunities stringify ld2 now2 later2 fs st1
       in r1 = data e \<and> r2 = r1 \<and> st2 = st"
    by simp
qed

text \<open>
  A cold cache and a store that answers the first call only; then a cache holding
  a fresh page.
\<close>

theorem getOpportunities_cache_idempotent_witness:
  "\<not> isValidCache 5000 (map_of (cache emptyClient) (getCacheKey exampleStringify ''opportunities'' noFilters)) \<and>
   onlineStore databaseId ''opportunities'' (opportunityQueries noFilters) =
     Inr \<lparr>total = 1, documents = [exampleDocument]\<rparr> \<and>
   (6000::int) - 5040 < cacheTimeout \<and>
   (let (r1, st1) = getOpportunities exampleStringify onlineStore 5000 5040 noFilters emptyClient;
        (r2, st2) = getOpportunities exampleStringify offlineStore 6000 6040 noFilters st1
    in r1 = docsJson [exampleDocument] \<and> r2 = r1 \<and> st2 = st1 \<and>
       sent st2 = [ListDocuments databaseId ''opportunities'' (opportunityQueries noFilters)]) \<and>
   map_of (cache cachedClient) (getCacheKey exampleStringify ''opportunities'' noFilters) =
     Some \<lparr>data = cachedPage, timestamp = 1000\<rparr> \<and>
   (2000::int) - 1000 < cacheTimeout \<and> (3000::int) - 1000 < cacheTimeout \<and>
   (let (r1, st1) = getOpportunities exampleStringify onlineStore 2000 2040 noFilters cachedClient;
        (r2, st2) = getOpportunities exampleStringify onlineStore 3000 3040 noFilters st1
    in r1 = cachedPage \<and> r2 = r1 \<and> st2 = cachedClient)"
proof -
  have h1: "\<not> isValidCache 5000 (map_of (cache emptyClient) (getCacheKey exampleStringify ''opportunities'' noFilters))"
    by (simp add: emptyClient_def isValidCache_def)
  have h2: "onlineStore databaseId ''opportunities'' (opportunityQueries noFilters) =
     Inr \<lparr>total = 1, documents = [exampleDocument]\<rparr>"
    by (simp add: onlineStore_def)
  have h3: "(6000::int) - 5040 < cacheTimeout" "(2000::int) - 1000 < cacheTimeout"
    "(3000::int) - 1000 < cacheTimeout"
    by (simp_all add: cacheTimeout_def)
  have s: "sent emptyClient = []" by (simp add: emptyClient_def)
  have first: "let (r1, st1) = getOpportunities exampleStringify onlineStore 5000 5040 noFilters emptyClient;
        (r2, st2) = getOpportunities exampleStringify offlineStore 6000 6040 noFilters st1
    in r1 = docsJson [exampleDocument] \<and> r2 = r1 \<and> st2 = st1 \<and>
       sent st2 = [ListDocuments databaseId ''opportunities'' (opportunityQueries noFilters)]"
    using h1 h2 h3 s
      getOpportunities_cache_idempotent
        [where ?now1.0 = 5000 and st = emptyClient and stringify = exampleStringify
           and fs = noFilters and ?ld1.0 = onlineStore
           and response = "\<lparr>total = 1, documents = [exampleDocument]\<rparr>"
           and ?now2.0 = 6000 and ?later1.0 = 5040 and ?ld2.0 = offlineStore and ?later2.0 = 6040]
    by simp
  have second: "let (r1, st1) = getOpportunities exampleStringify onlineStore 2000 2040 noFilters cachedClient;
        (r2, st2) = getOpportunities exampleStringify onlineStore 3000 3040 noFilters st1
    in r1 = cachedPage \<and> r2 = r1 \<and> st2 = cachedClient"
    using cachedClient_lookup h3
      getOpportunities_cache_idempotent
        [where ?now1.0 = 2000 and st = cachedClient and stringify = exampleStringify
           and fs = noFilters and ?ld1.0 = onlineStore
           and e = "\<lparr>data = cachedPage, timestamp = 1000\<rparr>"
           and ?now2.0 = 3000 and ?later1.0 = 2040 and ?ld2.0 = onlineStore and ?later2.0 = 3040]
    by simp
  show ?thesis
    using h1 h2 h3 cachedClient_lookup first second by blast
qed

lemma keys_setCache: "fst ` set c \<subseteq> fst ` set (setCache t key d c)"
  by (auto simp: setCache_def AList.dom_update)

lemma getOpportunities_keeps_keys:
  "fst ` set (cache st) \<subseteq> fst ` set (cache (snd (getOpportunities stringify ld now later fs st)))"
proof (cases "isValidCache now (map_of (cache st) (getCacheKey stringify ''opportunities'' fs))")
  case True
  then show ?thesis
    by (auto simp: getOpportunities_def Let_def isValidCache_def split: option.splits)
next
  case False
  then show ?thesis
    using keys_setCache by (simp add: getOpportunities_miss split: sum.splits)
qed

lemma fetchWithCache_keeps_keys:
  "fst ` set (cache st) \<subseteq>
   fst ` set (cache (snd (fetchWithCache enc fetch now later q paramsText st)))"
  by (auto simp: fetchWithCache_def Let_def AList.dom_update split: option.splits sum.splits)

lemma getOpportunities_stale_failure:
  assumes "map_of (cache st) (getCacheKey stringify ''opportunities'' fs) = Some e"
    and "\<not> now - timestamp e < cacheTimeout"
    and "ld databaseId ''opportunities'' (opportunityQueries fs) = Inl err"
  shows "getOpportunities stringify ld now later fs st =
           (docsJson getMockOpportunities,
            st\<lparr>sent := sent st @ [ListDocuments databaseId ''opportunities'' (opportunityQueries fs)]\<rparr>)"
  using assms by (simp add: getOpportunities_miss isValidCache_def)

lemma other_operations_keep_cache:
  "cache (snd (search ld searchTerm types st)) = cache st \<and>
   cache (snd (getDashboardStats ld st)) = cache st \<and>
   cache (snd (getFeaturedContent ld st)) = cache st \<and>
   cache (snd (createOpportunity createDocument docId isoNow d st)) =
     (case createDocument databaseId ''opportunities'' docId (opportunityPayload isoNow d) of
        Inr doc \<Rightarrow> clearCacheByCollection ''opportunities'' (cache st)
      | Inl err \<Rightarrow> cache st)"
  by (simp add: search_def getDashboardStats_def getFeaturedContent_def createOpportunity_def
      Let_def split: prod.splits sum.splits)

text \<open>
  Claim C4. The TTL is 300000 ms, and an entry with timestamp \<open>t\<close> is fresh
  exactly when \<open>now - t < TTL\<close>: a call at \<open>t + TTL - 1\<close> returns the entry
  and sends nothing, a call at \<open>t + TTL + 1\<close> sends a request. A stale entry
  stays in the cache: a list call of either client never removes a key (a failed
  fetch leaves the cache as it is), \<^verbatim>\<open>search\<close>, \<^verbatim>\<open>getDashboardStats\<close> and
  \<^verbatim>\<open>getFeaturedContent\<close> do not touch the cache, and entries go only by
  \<^verbatim>\<open>clearCache\<close> and by \<^verbatim>\<open>clearCacheByCollection\<close>, which a successful
  \<^verbatim>\<open>createOpportunity\<close> calls.
\<close>

theorem cache_freshness_boundary:
  "cacheTimeout = 300000 \<and>
   isValidCache now (Some e) = (now - timestamp e < 5 * 60 * 1000) \<and>
   (map_of (cache st) (getCacheKey stringify ''opportunities'' fs) = Some e \<longrightarrow>
      getOpportunities stringify ld (timestamp e + cacheTimeout - 1) later fs st = (data e, st) \<and>
      sent (snd (getOpportunities stringify ld (timestamp e + cacheTimeout + 1) later fs st)) =
        sent st @ [ListDocuments databaseId ''opportunities'' (opportunityQueries fs)] \<and>
      (ld databaseId ''opportunities'' (opportunityQueries fs) = Inl err \<longrightarrow>
         cache (snd (getOpportunities stringify ld (timestamp e + cacheTimeout + 1) later fs st)) =
           cache st)) \<and>
   fst ` set (cache st) \<subseteq>
     fst ` set (cache (snd (getOpportunities stringify ld now later fs st))) \<and>
   fst ` set (cache st) \<subseteq>
     fst ` set (cache (snd (fetchWithCache enc fetch now later q paramsText st))) \<and>
   cache (snd (search ld searchTerm types st)) = cache st \<and>
   cache (snd (getDashboardStats ld st)) = cache st \<and>
   cache (snd (getFeaturedContent ld st)) = cache st \<and>
   cache (snd (createOpportunity createDocument docId isoNow d st)) =
     (case createDocument databaseId ''opportunities'' docId (opportunityPayload isoNow d) of
        Inr doc \<Rightarrow> clearCacheByCollection ''opportunities'' (cache st)
      | Inl err \<Rightarrow> cache st) \<and>
   clearCache (cache st) = [] \<and>
   clearCacheByCollection collection (cache st) =
     filter (\<lambda>(k, e). \<not> includes_str k collection) (cache st)"
proof -
  have t: "cacheTimeout = 300000" by (simp add: cacheTimeout_def)
  have v: "isValidCache now (Some e) = (now - timestamp e < 5 * 60 * 1000)"
    by (simp add: isValidCache_def cacheTimeout_def)
  have b: "getOpportunities stringify ld (timestamp e + cacheTimeout - 1) later fs st = (data e, st) \<and>
      sent (snd (getOpportunities stringify ld (timestamp e + cacheTimeout + 1) later fs st)) =
        sent st @ [ListDocuments databaseId ''opportunities'' (opportunityQueries fs)] \<and>
      (ld databaseId ''opportunities'' (opportunityQueries fs) = Inl err \<longrightarrow>
         cache (snd (getOpportunities stringify ld (timestamp e + cacheTimeout + 1) later fs st)) =
           cache st)"
    if c: "map_of (cache st) (getCacheKey stringify ''opportunities'' fs) = Some e"
  proof -
    have hit: "getOpportunities stringify ld (timestamp e + cacheTimeout - 1) later fs st = (data e, st)"
      using c by (simp add: getOpportunities_hit)
    have stale: "\<not> isValidCache (timestamp e + cacheTimeout + 1)
                   (map_of (cache st) (getCacheKey stringify ''opportunities'' fs))"
      using c by (simp add: isValidCache_def)
    have fetch: "sent (snd (getOpportunities stringify ld (timestamp e + cacheTimeout + 1) later fs st)) =
        sent st @ [ListDocuments databaseId ''opportunities'' (opportunityQueries fs)]"
      using stale by (simp add: getOpportunities_miss split: sum.splits)
    have kept: "cache (snd (getOpportunities stringify ld (timestamp e + cacheTimeout + 1) later fs st)) =
           cache st"
      if "ld databaseId ''opportunities'' (opportunityQueries fs) = Inl err"
      using stale that by (simp add: getOpportunities_miss)
    show ?thesis using hit fetch kept by blast
  qed
  have k1: "fst ` set (cache st) \<subseteq>
     fst ` set (cache (snd (getOpportunities stringify ld now later fs st)))"
    by (rule getOpportunities_keeps_keys)
  have k2: "fst ` set (cache st) \<subseteq>
     fst ` set (cache (snd (fetchWithCache enc fetch now later q paramsText st)))"
    by (rule fetchWithCache_keeps_keys)
  have c1: "clearCache (cache st) = []" by (simp add: clearCache_def)
  have c2: "clearCacheByCollection collection (cache st) =
     filter (\<lambda>(k, e). \<not> includes_str k collection) (cache st)"
    by (rule clearCacheByCollection_filter)
  show ?thesis
    using t v b k1 k2 c1 c2 other_operations_keep_cache [of ld searchTerm types st createDocument docId isoNow d]
    by blast
qed

text \<open>An entry stored at 1000 ms, read at 300999 ms and at 301001 ms with the store down.\<close>

theorem cache_freshness_boundary_witness:
  "map_of (cache cachedClient) (getCacheKey exampleStringify ''opportunities'' noFilters) =
     Some \<lparr>data = cachedPage, timestamp = 1000\<rparr> \<and>
   offlineStore databaseId ''opportunities'' (opportunityQueries noFilters) =
     Inl (Error ''Network request failed'') \<and>
   getOpportunities exampleStringify offlineStore 300999 301500 noFilters cachedClient =
     (cachedPage, cachedClient) \<and>
   sent (snd (getOpportunities exampleStringify offlineStore 301001 301500 noFilters cachedClient)) =
     [ListDocuments databaseId ''opportunities'' (opportunityQueries noFilters)] \<and>
   cache (snd (getOpportunities exampleStringify offlineStore 301001 301500 noFilters cachedClient)) =
     cache cachedClient"
proof -
  have h2: "offlineStore databaseId ''opportunities'' (opportunityQueries noFilters) =
     Inl (Error ''Network request failed'')"
    by (simp add: offlineStore_def)
  have s: "sent cachedClient = []" by (simp add: cachedClient_def)
  show ?thesis
    using cachedClient_lookup h2 s
      cache_freshness_boundary
        [where st = cachedClient and stringify = exampleStringify and fs = noFilters
           and e = "\<lparr>data = cachedPage, timestamp = 1000\<rparr>" and ld = offlineStore
           and later = 301500 and err = "Error ''Network request failed''"]
    by (simp add: cacheTimeout_def)
qed

text \<open>
  Claim C5, as stated, fails for the client of api.js: with a stale entry cached
  under the call's key and the remote store down, \<^verbatim>\<open>getOpportunities\<close> returns
  the static example records, not the cached page.
\<close>

theorem stale_cache_ignored_counterexample:
  "map_of (cache cachedClient) (getCacheKey exampleStringify ''opportunities'' noFilters) =
     Some \<lparr>data = cachedPage, timestamp = 1000\<rparr> \<and>
   offlineStore databaseId ''opportunities'' (opportunityQueries noFilters) =
     Inl (Error ''Network request failed'') \<and>
   fst (getOpportunities exampleStringify offlineStore 400000 400050 noFilters cachedClient) =
     docsJson getMockOpportunities \<and>
   fst (getOpportunities exampleStringify offlineStore 400000 400050 noFilters cachedClient) \<noteq>
     cachedPage"
proof -
  have h2: "offlineStore databaseId ''opportunities'' (opportunityQueries noFilters) =
     Inl (Error ''Network request failed'')"
    by (simp add: offlineStore_def)
  have stale: "\<not> (400000::int) - timestamp \<lparr>data = cachedPage, timestamp = 1000\<rparr> < cacheTimeout"
    by (simp add: cacheTimeout_def)
  from cachedClient_lookup stale h2
  have "getOpportunities exampleStringify offlineStore 400000 400050 noFilters cachedClient =
           (docsJson getMockOpportunities,
            cachedClient\<lparr>sent := sent cachedClient @
               [ListDocuments databaseId ''opportunities'' (opportunityQueries noFilters)]\<rparr>)"
    by (rule getOpportunities_stale_failure)
  moreover have "docsJson getMockOpportunities \<noteq> cachedPage"
    by (simp add: docsJson_def getMockOpportunities_def cachedPage_def)
  ultimately show ?thesis using cachedClient_lookup h2 by simp
qed

text \<open>
  Claim C5, amended. A failed fetch is never passed on to the caller of a list
  call. In the Sanity client \<^verbatim>\<open>fetchWithCache\<close>, and so every list call built on
  it, then returns the entry cached under the key, stale or not, and the fallback
  records only when there is none. In the client of api.js
  \<^verbatim>\<open>getOpportunities\<close> returns a cached entry only while it is fresh, and
  otherwise the static example records, whether or not a stale entry exists. Both
  leave the cache as it is.
\<close>

theorem remote_failure_degrades:
  "(awaitResult fetch (baseUrl @ ''?query='' @ enc q) = Inl err \<longrightarrow>
      fst (fetchWithCache enc fetch now later q paramsText st) =
        (case map_of (cache st) (q @ ''_'' @ paramsText) of
           Some e \<Rightarrow> data e
         | None \<Rightarrow> getFallbackData q) \<and>
      cache (snd (fetchWithCache enc fetch now later q paramsText st)) = cache st) \<and>
   (awaitResult fetch (baseUrl @ ''?query='' @ enc (sanity_opportunityQuery str fs)) = Inl err \<longrightarrow>
      fst (sanity_getOpportunities str enc fetch now later fs st) =
        (case map_of (cache st) (sanity_opportunityQuery str fs @ ''_{}'') of
           Some e \<Rightarrow> data e
         | None \<Rightarrow> getFallbackData (sanity_opportunityQuery str fs))) \<and>
   (ld databaseId ''opportunities'' (opportunityQueries fs) = Inl err \<longrightarrow>
      fst (getOpportunities stringify ld now later fs st) =
        (case map_of (cache st) (getCacheKey stringify ''opportunities'' fs) of
           Some e \<Rightarrow> if now - timestamp e < cacheTimeout then data e
                     else docsJson getMockOpportunities
         | None \<Rightarrow> docsJson getMockOpportunities) \<and>
      cache (snd (getOpportunities stringify ld now later fs st)) = cache st)"
proof -
  have a: "fst (fetchWithCache enc fetch now later q paramsText st) =
        (case map_of (cache st) (q @ ''_'' @ paramsText) of
           Some e \<Rightarrow> data e
         | None \<Rightarrow> getFallbackData q) \<and>
      cache (snd (fetchWithCache enc fetch now later q paramsText st)) = cache st"
    if "awaitResult fetch (baseUrl @ ''?query='' @ enc q) = Inl err" for q paramsText
    using that by (simp add: fetchWithCache_def Let_def split: option.splits)
  have b: "fst (getOpportunities stringify ld now later fs st) =
        (case map_of (cache st) (getCacheKey stringify ''opportunities'' fs) of
           Some e \<Rightarrow> if now - timestamp e < cacheTimeout then data e
                     else docsJson getMockOpportunities
         | None \<Rightarrow> docsJson getMockOpportunities) \<and>
      cache (snd (getOpportunities stringify ld now later fs st)) = cache st"
    if "ld databaseId ''opportunities'' (opportunityQueries fs) = Inl err"
    using that by (simp add: getOpportunities_def Let_def isValidCache_def split: option.splits)
  show ?thesis
    using a [of q paramsText] a [of "sanity_opportunityQuery str fs" "''{}''"] b
    by (simp add: sanity_getOpportunities_def)
qed

lemma fetchDown_awaitResult: "awaitResult fetchDown url = Inl (Error ''Failed to fetch'')"
  by (simp add: awaitResult_def fetchDown_def)

text \<open>Both clients with the remote store down, with and without a cached entry.\<close>

theorem remote_failure_degrades_witness:
  "awaitResult fetchDown (baseUrl @ ''?query='' @ exampleEncode ''*[_type == x]'') =
     Inl (Error ''Failed to fetch'') \<and>
   fst (fetchWithCache exampleEncode fetchDown 400000 400050 ''*[_type == x]'' ''{}'' sanityCachedClient) =
     cachedPage \<and>
   fst (fetchWithCache exampleEncode fetchDown 400000 400050 ''*[_type == y]'' ''{}'' sanityCachedClient) =
     getFallbackData ''*[_type == y]'' \<and>
   offlineStore databaseId ''opportunities'' (opportunityQueries noFilters) =
     Inl (Error ''Network request failed'') \<and>
   fst (getOpportunities exampleStringify offlineStore 400000 400050 noFilters cachedClient) =
     docsJson getMockOpportunities \<and>
   fst (getOpportunities exampleStringify offlineStore 2000 2050 noFilters cachedClient) = cachedPage"
proof -
  have h2: "offlineStore databaseId ''opportunities'' (opportunityQueries noFilters) =
     Inl (Error ''Network request failed'')"
    by (simp add: offlineStore_def)
  have l1: "map_of (cache sanityCachedClient) (''*[_type == x]'' @ ''_'' @ ''{}'') =
              Some \<lparr>data = cachedPage, timestamp = 1000\<rparr>"
    by (simp add: sanityCachedClient_def)
  have l2: "map_of (cache sanityCachedClient) (''*[_type == y]'' @ ''_'' @ ''{}'') = None"
    by (simp add: sanityCachedClient_def)
  note x = remote_failure_degrades
        [where fetch = fetchDown and enc = exampleEncode and q = "''*[_type == x]''"
           and err = "Error ''Failed to fetch''" and paramsText = "''{}''" and st = sanityCachedClient
           and now = 400000 and later = 400050]
  note y = remote_failure_degrades
        [where fetch = fetchDown and enc = exampleEncode and q = "''*[_type == y]''"
           and err = "Error ''Failed to fetch''" and paramsText = "''{}''" and st = sanityCachedClient
           and now = 400000 and later = 400050]
  note z = remote_failure_degrades
        [where ld = offlineStore and fs = noFilters and err = "Error ''Network request failed''"
           and stringify = exampleStringify and st = cachedClient and later = 400050
           and now = 400000]
  have 1: "fst (fetchWithCache exampleEncode fetchDown 400000 400050 ''*[_type == x]'' ''{}'' sanityCachedClient) =
     cachedPage"
    using x l1 by (simp add: fetchDown_awaitResult)
  have 2: "fst (fetchWithCache exampleEncode fetchDown 400000 400050 ''*[_type == y]'' ''{}'' sanityCachedClient) =
     getFallbackData ''*[_type == y]''"
    using y l2 by (simp add: fetchDown_awaitResult)
  have 3: "fst (getOpportunities exampleStringify offlineStore 400000 400050 noFilters cachedClient) =
     docsJson getMockOpportunities"
    using z h2 cachedClient_lookup by (simp add: cacheTimeout_def)
  have 4: "fst (getOpportunities exampleStringify offlineStore 2000 2050 noFilters cachedClient) = cachedPage"
    using remote_failure_degrades
        [where ld = offlineStore and fs = noFilters and err = "Error ''Network request failed''"
           and stringify = exampleStringify and st = cachedClient and later = 2050 and now = 2000]
      h2 cachedClient_lookup by (simp add: cacheTimeout_def)
  show ?thesis using 1 2 3 4 h2 by (simp add: fetchDown_awaitResult)
qed




lemma opportunities_key_includes:
  "includes_str (getCacheKey stringify ''opportunities'' fs) ''opportunities''"
  unfolding getCacheKey_def by (rule includes_str_prefix)

text \<open>
  Claim C7. After a successful \<^verbatim>\<open>createOpportunity\<close> the cache holds exactly the
  entries whose key does not contain \<^verbatim>\<open>opportunities\<close> as a substring, unchanged
  and in their order. The key of every list call for opportunities contains it,
  so the next \<^verbatim>\<open>getOpportunities\<close>, for any filters and at any time, sends a
  request and returns what the remote store answers (or the example records when
  it fails), never a page cached before the creation.
\<close>

theorem createOpportunity_invalidates_collection:
  "createDocument databaseId ''opportunities'' docId (opportunityPayload isoNow d) = Inr doc \<longrightarrow>
     cache (snd (createOpportunity createDocument docId isoNow d st)) =
       filter (\<lambda>(k, e). \<not> includes_str k ''opportunities'') (cache st) \<and>
     (\<forall>k. map_of (cache (snd (createOpportunity createDocument docId isoNow d st))) k =
          (if \<exists>a b. k = a @ ''opportunities'' @ b then None else map_of (cache st) k)) \<and>
     sent (snd (getOpportunities stringify ld now later fs
                  (snd (createOpportunity createDocument docId isoNow d st)))) =
       sent (snd (createOpportunity createDocument docId isoNow d st)) @
         [ListDocuments databaseId ''opportunities'' (opportunityQueries fs)] \<and>
     fst (getOpportunities stringify ld now later fs
            (snd (createOpportunity createDocument docId isoNow d st))) =
       (case ld databaseId ''opportunities'' (opportunityQueries fs) of
          Inr response \<Rightarrow> docsJson (documents response)
        | Inl err \<Rightarrow> docsJson getMockOpportunities)"
proof
  assume ok: "createDocument databaseId ''opportunities'' docId (opportunityPayload isoNow d) = Inr doc"
  let ?st' = "snd (createOpportunity createDocument docId isoNow d st)"
  have c: "cache ?st' = filter (\<lambda>(k, e). \<not> includes_str k ''opportunities'') (cache st)"
    using ok by (simp add: createOpportunity_def Let_def clearCacheByCollection_filter)
  have m: "map_of (cache ?st') k =
          (if \<exists>a b. k = a @ ''opportunities'' @ b then None else map_of (cache st) k)" for k
    unfolding c by (simp add: map_of_filter_key includes_str_iff)
  have "map_of (cache ?st') (getCacheKey stringify ''opportunities'' fs) = None"
    unfolding c by (simp add: map_of_filter_key opportunities_key_includes)
  then have miss: "\<not> isValidCache now (map_of (cache ?st') (getCacheKey stringify ''opportunities'' fs))"
    by (simp add: isValidCache_def)
  have s: "sent (snd (getOpportunities stringify ld now later fs ?st')) =
       sent ?st' @ [ListDocuments databaseId ''opportunities'' (opportunityQueries fs)]"
    using miss by (simp add: getOpportunities_miss split: sum.splits)
  have r: "fst (getOpportunities stringify ld now later fs ?st') =
       (case ld databaseId ''opportunities'' (opportunityQueries fs) of
          Inr response \<Rightarrow> docsJson (documents response)
        | Inl err \<Rightarrow> docsJson getMockOpportunities)"
    using miss by (simp add: getOpportunities_miss split: sum.splits)
  show "cache ?st' = filter (\<lambda>(k, e). \<not> includes_str k ''opportunities'') (cache st) \<and>
     (\<forall>k. map_of (cache ?st') k =
          (if \<exists>a b. k = a @ ''opportunities'' @ b then None else map_of (cache st) k)) \<and>
     sent (snd (getOpportunities stringify ld now later fs ?st')) =
       sent ?st' @ [ListDocuments databaseId ''opportunities'' (opportunityQueries fs)] \<and>
     fst (getOpportunities stringify ld now later fs ?st') =
       (case ld databaseId ''opportunities'' (opportunityQueries fs) of
          Inr response \<Rightarrow> docsJson (documents response)
        | Inl err \<Rightarrow> docsJson getMockOpportunities)"
    using c m s r by blast
qed

text \<open>
  A cache with a fresh page of opportunities and one of companies: the creation
  removes the first only, and the next list call fetches.
\<close>

theorem createOpportunity_invalidates_collection_witness:
  "acceptingStore databaseId ''opportunities'' ''id-1'' (opportunityPayload ''2024-09-01T00:00:00.000Z'' exampleDocument) =
     Inr (JObj ((''$id'', JStr ''id-1'') # opportunityPayload ''2024-09-01T00:00:00.000Z'' exampleDocument)) \<and>
   cache (snd (createOpportunity acceptingStore ''id-1'' ''2024-09-01T00:00:00.000Z'' exampleDocument cachedClient)) =
     [(''companies_{}'', \<lparr>data = JArr [], timestamp = 1000\<rparr>)] \<and>
   fst (getOpportunities exampleStringify onlineStore 2000 2050 noFilters
          (snd (createOpportunity acceptingStore ''id-1'' ''2024-09-01T00:00:00.000Z'' exampleDocument cachedClient))) =
     docsJson [exampleDocument] \<and>
   fst (getOpportunities exampleStringify onlineStore 2000 2050 noFilters cachedClient) = cachedPage"
proof -
  have a: "acceptingStore databaseId ''opportunities'' ''id-1'' (opportunityPayload ''2024-09-01T00:00:00.000Z'' exampleDocument) =
     Inr (JObj ((''$id'', JStr ''id-1'') # opportunityPayload ''2024-09-01T00:00:00.000Z'' exampleDocument))"
    by (simp add: acceptingStore_def)
  have f: "filter (\<lambda>(k, e). \<not> includes_str k ''opportunities'') (cache cachedClient) =
     [(''companies_{}'', \<lparr>data = JArr [], timestamp = 1000\<rparr>)]"
    by (simp add: cachedClient_def startsWith_def)
  have o: "onlineStore databaseId ''opportunities'' (opportunityQueries noFilters) =
     Inr \<lparr>total = 1, documents = [exampleDocument]\<rparr>"
    by (simp add: onlineStore_def)
  have before: "fst (getOpportunities exampleStringify onlineStore 2000 2050 noFilters cachedClient) = cachedPage"
    using cachedClient_lookup by (simp add: getOpportunities_hit cacheTimeout_def)
  show ?thesis
    using a f o before
      createOpportunity_invalidates_collection
        [where createDocument = acceptingStore and docId = "''id-1''"
           and isoNow = "''2024-09-01T00:00:00.000Z''" and d = exampleDocument
           and doc = "JObj ((''$id'', JStr ''id-1'') # opportunityPayload ''2024-09-01T00:00:00.000Z'' exampleDocument)"
           and st = cachedClient and stringify = exampleStringify and ld = onlineStore
           and now = 2000 and later = 2050 and fs = noFilters]
    by simp
qed





text \<open>The 20 documents of that search are cut to 10, after four requests.\<close>

lemma search_truncates_example:
  "arrayLength (fst (search busyStore ''oil'' [] emptyClient)) = 10 \<and>
   length (sent (snd (search busyStore ''oil'' [] emptyClient))) = 4"
  by (simp add: search_def trim_def isWhiteSpace_def collections_def busyStore_def Let_def
      exampleDocument_def subtitleOf_def getProp_def docsJson_def emptyClient_def
      numeral_eq_Suc)

text \<open>
  Claim C9. When at least one of the four requests of \<^verbatim>\<open>getFeaturedContent\<close>
  is rejected, the result is the static fallback summary as a whole; likewise for
  \<^verbatim>\<open>getDashboardStats\<close> and its fallback counts.
\<close>

theorem fanout_failure_falls_back:
  "(isl (ld databaseId ''opportunities'' [Equal ''featured'' (JBool True), Limit 3]) \<or>
    isl (ld databaseId ''companies'' [Equal ''featured'' (JBool True), Limit 6]) \<or>
    isl (ld databaseId ''regulatory'' [OrderDesc ''publishedDate'', Limit 3]) \<or>
    isl (ld databaseId ''articles'' [OrderDesc ''publishedDate'', Limit 3]) \<longrightarrow>
      fst (getFeaturedContent ld st) = getMockFeaturedContent) \<and>
   (isl (ld databaseId ''opportunities'' [Limit 1]) \<or>
    isl (ld databaseId ''companies'' [Limit 1]) \<or>
    isl (ld databaseId ''regulatory'' [Limit 1]) \<or>
    isl (ld databaseId ''articles'' [Limit 1]) \<longrightarrow>
      fst (getDashboardStats ld st) = fallbackDashboardStats)"
  by (auto simp: getFeaturedContent_def getDashboardStats_def promiseAll4_def Let_def isl_def
      split: sum.splits)

text \<open>A store in which only the articles collection fails.\<close>

theorem fanout_failure_falls_back_witness:
  "isl (articlesDownStore databaseId ''articles'' [OrderDesc ''publishedDate'', Limit 3]) \<and>
   \<not> isl (articlesDownStore databaseId ''opportunities'' [Equal ''featured'' (JBool True), Limit 3]) \<and>
   fst (getFeaturedContent articlesDownStore emptyClient) = getMockFeaturedContent \<and>
   isl (articlesDownStore databaseId ''articles'' [Limit 1]) \<and>
   fst (getDashboardStats articlesDownStore emptyClient) = fallbackDashboardStats"
proof -
  have a: "isl (articlesDownStore databaseId ''articles'' [OrderDesc ''publishedDate'', Limit 3])"
    "isl (articlesDownStore databaseId ''articles'' [Limit 1])"
    "\<not> isl (articlesDownStore databaseId ''opportunities'' [Equal ''featured'' (JBool True), Limit 3])"
    by (simp_all add: articlesDownStore_def)
  show ?thesis
    using a fanout_failure_falls_back [of articlesDownStore emptyClient] by blast
qed

end
